theory Spec2Isabelle
  imports Main
begin

section \<open>Python values used by \<open>export_nvdb.py\<close>\<close>

text \<open>
  A Python \<open>str\<close> is a sequence of code points. It is modelled as a \<open>string\<close> in which
  every \<open>char\<close> stands for one code point, so the model covers the code points below
  256 (ASCII and Latin-1); \<open>length\<close> and \<open>take\<close> count code points as \<open>len\<close> and
  slicing do.
\<close>

definition py_isspace :: "char \<Rightarrow> bool" where
  \<comment> \<open>\<open>str.isspace\<close> on one code point below 256: TAB..CR, FS..US, space, NEL, NBSP.\<close>
  "py_isspace c =
     (let n = (of_char c :: nat)
      in (9 \<le> n \<and> n \<le> 13) \<or> (28 \<le> n \<and> n \<le> 32) \<or> n = 133 \<or> n = 160)"

definition py_lstrip :: "(char \<Rightarrow> bool) \<Rightarrow> string \<Rightarrow> string" where
  "py_lstrip P s = dropWhile P s"

definition py_rstrip :: "(char \<Rightarrow> bool) \<Rightarrow> string \<Rightarrow> string" where
  "py_rstrip P s = rev (dropWhile P (rev s))"

definition py_strip :: "string \<Rightarrow> string" where
  \<comment> \<open>\<open>s.strip()\<close>: leading and trailing whitespace removed.\<close>
  "py_strip s = py_rstrip py_isspace (py_lstrip py_isspace s)"

definition py_strip_chars :: "string \<Rightarrow> string \<Rightarrow> string" where
  \<comment> \<open>\<open>s.strip(chars)\<close>: leading and trailing characters of \<open>chars\<close> removed.\<close>
  "py_strip_chars chars s =
     py_rstrip (\<lambda>c. c \<in> set chars) (py_lstrip (\<lambda>c. c \<in> set chars) s)"

definition py_lower_char :: "char \<Rightarrow> char" where
  \<comment> \<open>\<open>str.lower\<close> on one code point below 256: A..Z and the Latin-1 capitals
      (U+00C0..U+00DE without the multiplication sign U+00D7) move up by 32.\<close>
  "py_lower_char c =
     (let n = (of_char c :: nat)
      in if (65 \<le> n \<and> n \<le> 90) \<or> (192 \<le> n \<and> n \<le> 222 \<and> n \<noteq> 215)
         then char_of (n + 32) else c)"

definition py_lower :: "string \<Rightarrow> string" where
  "py_lower s = map py_lower_char s"

function re_sub_runs :: "(char \<Rightarrow> bool) \<Rightarrow> string \<Rightarrow> string" where
  \<comment> \<open>\<open>re.sub(r"[P]+", "_", s)\<close>: every maximal run of characters of the class \<open>P\<close>
      is replaced by one underscore.\<close>
  "re_sub_runs P [] = []"
| "re_sub_runs P (c # cs) =
     (if P c then CHR ''_'' # re_sub_runs P (dropWhile P cs) else c # re_sub_runs P cs)"
  by pat_completeness auto
termination
  by (relation "measure (\<lambda>(P, s). length s)")
     (auto simp: le_imp_less_Suc length_dropWhile_le)

text \<open>
  The values the program handles are the Python objects that a decoded JSON document
  consists of. A \<open>dict\<close> is an association list in insertion order. Floating-point
  numbers are not part of the model.
\<close>

datatype pyval =
    PNone
  | PBool bool
  | PInt int
  | PStr string
  | PList "pyval list"
  | PDict "(string \<times> pyval) list"

type_synonym pydict = "(string \<times> pyval) list"

fun py_truthy :: "pyval \<Rightarrow> bool" where
  \<comment> \<open>the truth value Python gives an object in \<open>if x\<close>, \<open>not x\<close> and \<open>x or y\<close>\<close>
  "py_truthy PNone = False"
| "py_truthy (PBool b) = b"
| "py_truthy (PInt n) = (n \<noteq> 0)"
| "py_truthy (PStr s) = (s \<noteq> [])"
| "py_truthy (PList xs) = (xs \<noteq> [])"
| "py_truthy (PDict d) = (d \<noteq> [])"

definition py_or :: "pyval \<Rightarrow> pyval \<Rightarrow> pyval" where
  \<comment> \<open>\<open>a or b\<close>\<close>
  "py_or a b = (if py_truthy a then a else b)"

definition dict_get :: "pydict \<Rightarrow> string \<Rightarrow> pyval" where
  \<comment> \<open>\<open>d.get(k)\<close>: the value, or \<open>None\<close> for a missing key\<close>
  "dict_get d k = (case map_of d k of None \<Rightarrow> PNone | Some v \<Rightarrow> v)"

definition dict_pop :: "pydict \<Rightarrow> string \<Rightarrow> pydict" where
  \<comment> \<open>the dict after \<open>d.pop(k, None)\<close>\<close>
  "dict_pop d k = filter (\<lambda>kv. fst kv \<noteq> k) d"

fun is_str :: "pyval \<Rightarrow> bool" where
  "is_str (PStr s) = True"
| "is_str v = False"

fun is_dict :: "pyval \<Rightarrow> bool" where
  "is_dict (PDict d) = True"
| "is_dict v = False"

subsection \<open>Text of a value: \<open>str\<close>, \<open>repr\<close> and \<open>json.dumps\<close>\<close>

definition digit_char :: "nat \<Rightarrow> char" where
  "digit_char n = char_of (48 + n)"

fun show_nat :: "nat \<Rightarrow> string" where
  "show_nat n =
     (if n < 10 then [digit_char n] else show_nat (n div 10) @ [digit_char (n mod 10)])"

declare show_nat.simps [simp del]

definition show_int :: "int \<Rightarrow> string" where
  \<comment> \<open>the decimal digits of a Python \<open>int\<close>\<close>
  "show_int i = (if i < 0 then CHR ''-'' # show_nat (nat (- i)) else show_nat (nat i))"

definition hex_digit :: "nat \<Rightarrow> char" where
  "hex_digit n = (if n < 10 then char_of (48 + n) else char_of (87 + n))"

definition hex2 :: "nat \<Rightarrow> string" where
  "hex2 n = [hex_digit (n div 16), hex_digit (n mod 16)]"

fun py_join :: "string \<Rightarrow> string list \<Rightarrow> string" where
  \<comment> \<open>\<open>sep.join(xs)\<close>\<close>
  "py_join sep [] = []"
| "py_join sep [x] = x"
| "py_join sep (x # y # ys) = x @ sep @ py_join sep (y # ys)"

definition repr_char :: "char \<Rightarrow> char \<Rightarrow> string" where
  \<comment> \<open>one code point inside \<open>repr\<close> of a \<open>str\<close> quoted with \<open>q\<close>; 92 is the backslash\<close>
  "repr_char q c =
     (let n = (of_char c :: nat)
      in if c = q \<or> n = 92 then [CHR 92, c]
         else if n = 9 then [CHR 92, CHR ''t'']
         else if n = 10 then [CHR 92, CHR ''n'']
         else if n = 13 then [CHR 92, CHR ''r'']
         else if n < 32 \<or> n = 127 then [CHR 92, CHR ''x''] @ hex2 n
         else if n < 127 then [c]
         else if n \<le> 160 \<or> n = 173 then [CHR 92, CHR ''x''] @ hex2 n
         else [c])"

definition repr_str :: "string \<Rightarrow> string" where
  \<comment> \<open>\<open>repr\<close> of a \<open>str\<close>: single quotes (39), or double quotes (34) when the text
      has a single quote and no double quote\<close>
  "repr_str s =
     (let q = (if CHR 39 \<in> set s \<and> CHR 34 \<notin> set s then CHR 34 else CHR 39)
      in [q] @ concat (map (repr_char q) s) @ [q])"

fun py_repr :: "pyval \<Rightarrow> string" where
  "py_repr PNone = ''None''"
| "py_repr (PBool b) = (if b then ''True'' else ''False'')"
| "py_repr (PInt n) = show_int n"
| "py_repr (PStr s) = repr_str s"
| "py_repr (PList xs) = ''['' @ py_join '', '' (map py_repr xs) @ '']''"
| "py_repr (PDict d) =
     ''{'' @ py_join '', '' (map (\<lambda>kv. repr_str (fst kv) @ '': '' @ py_repr (snd kv)) d)
       @ ''}''"

definition py_str :: "pyval \<Rightarrow> string" where
  \<comment> \<open>what an f-string puts for \<open>{v}\<close>\<close>
  "py_str v = (case v of PStr s \<Rightarrow> s | _ \<Rightarrow> py_repr v)"

definition json_escape_char :: "bool \<Rightarrow> char \<Rightarrow> string" where
  \<comment> \<open>one code point inside a JSON string, as \<open>json.dumps\<close> writes it; with
      \<open>ensure_ascii\<close> everything outside the printable ASCII range is escaped too\<close>
  "json_escape_char ensure_ascii c =
     (let n = (of_char c :: nat)
      in if n = 92 then [CHR 92, CHR 92]
         else if n = 34 then [CHR 92, CHR 34]
         else if n = 8 then [CHR 92, CHR ''b'']
         else if n = 12 then [CHR 92, CHR ''f'']
         else if n = 10 then [CHR 92, CHR ''n'']
         else if n = 13 then [CHR 92, CHR ''r'']
         else if n = 9 then [CHR 92, CHR ''t'']
         else if n < 32 \<or> (ensure_ascii \<and> 127 \<le> n)
           then [CHR 92, CHR ''u'', CHR ''0'', CHR ''0''] @ hex2 n
         else [c])"

definition json_str :: "bool \<Rightarrow> string \<Rightarrow> string" where
  "json_str ensure_ascii s =
     [CHR 34] @ concat (map (json_escape_char ensure_ascii) s) @ [CHR 34]"

fun json_dumps :: "bool \<Rightarrow> pyval \<Rightarrow> string" where
  \<comment> \<open>\<open>json.dumps(v, ensure_ascii=ea)\<close> with the default separators\<close>
  "json_dumps ea PNone = ''null''"
| "json_dumps ea (PBool b) = (if b then ''true'' else ''false'')"
| "json_dumps ea (PInt n) = show_int n"
| "json_dumps ea (PStr s) = json_str ea s"
| "json_dumps ea (PList xs) = ''['' @ py_join '', '' (map (json_dumps ea) xs) @ '']''"
| "json_dumps ea (PDict d) =
     ''{'' @ py_join '', ''
              (map (\<lambda>kv. json_str ea (fst kv) @ '': '' @ json_dumps ea (snd kv)) d)
       @ ''}''"

section \<open>The layer name sanitizer\<close>

definition layer_char :: "char \<Rightarrow> bool" where
  \<comment> \<open>the character class \<open>[a-z0-9_]\<close>\<close>
  "layer_char c =
     (let n = (of_char c :: nat)
      in (97 \<le> n \<and> n \<le> 122) \<or> (48 \<le> n \<and> n \<le> 57) \<or> n = 95)"

definition safe_layer_name :: "string \<Rightarrow> string \<Rightarrow> string" where
  "safe_layer_name name fallback =
     (let name = (if name = [] then fallback else name);
          name = py_lower (py_strip name);
          name = re_sub_runs (\<lambda>c. \<not> layer_char c) name;
          name = py_strip_chars ''_'' (re_sub_runs (\<lambda>c. c = CHR ''_'') name);
          name = (if name = [] then fallback else name)
      in take 50 name)"

definition valid_layer_name :: "string \<Rightarrow> bool" where
  \<comment> \<open>the whole string matches \<open>[a-z0-9_]{1,50}\<close>\<close>
  "valid_layer_name s = (1 \<le> length s \<and> length s \<le> 50 \<and> list_all layer_char s)"

section \<open>Settings\<close>

record settings =
  FYLKE :: int
  CRS :: string
  INCLUDE_PROPERTIES_AS_JSON :: bool

definition default_settings :: settings where
  "default_settings =
     \<lparr>FYLKE = 56, CRS = ''EPSG:5973'', INCLUDE_PROPERTIES_AS_JSON = True\<rparr>"

section \<open>The geometry normalizer\<close>

text \<open>
  The libraries and the remote API are parameters of the model. A geometry object is a
  value of the type \<open>'g\<close>. \<open>shape\<close> and \<open>wkt_loads\<close> return \<open>None\<close> where the
  library function raises. \<open>nvdbFagdata\<close> gives, for a type id and a region, what
  constructing the query and iterating it does.
\<close>

datatype stream_end = Exhausted | Raises

datatype query = SetupFails | Results "pyval list" stream_end

record 'g env =
  shape :: "pydict \<Rightarrow> 'g option"
  wkt_loads :: "string \<Rightarrow> 'g option"
  nvdbFagdata :: "pyval \<Rightarrow> int \<Rightarrow> query"
  mode_keyword_accepted :: bool
  outfile_preexists :: bool

definition wkt_in_dict :: "'g env \<Rightarrow> pydict \<Rightarrow> 'g option" where
  \<comment> \<open>case B: WKT inside the dict\<close>
  "wkt_in_dict env d =
     (let wkt_text = py_or (dict_get d ''wkt'') (dict_get d ''WKT'')
      in case wkt_text of
           PStr t \<Rightarrow> if py_strip t \<noteq> [] then wkt_loads env t else None
         | _ \<Rightarrow> None)"

definition parse_geometry :: "'g env \<Rightarrow> pyval \<Rightarrow> 'g option" where
  "parse_geometry env geom =
     (if \<not> py_truthy geom then None
      else case geom of
        PDict d \<Rightarrow>
          (let gtype = dict_get d ''type'';
               coords = dict_get d ''coordinates'';
               direct = (if is_str gtype \<and> coords \<noteq> PNone then shape env d else None)
           in case direct of
                Some g \<Rightarrow> Some g
              | None \<Rightarrow> wkt_in_dict env d)
      | PStr s \<Rightarrow> if py_strip s \<noteq> [] then wkt_loads env s else None
      | _ \<Rightarrow> None)"

section \<open>Building one output row\<close>

record 'g row =
  row_id :: pyval
  objekttype :: pyval
  objekttype_navn :: string
  geometry :: "'g"
  properties :: "string option"

text \<open>
  The record \<open>obj\<close> is a mutable dict. The store below holds the dicts that exist, each
  at its address; \<open>dict(obj)\<close> allocates a new dict and \<open>pop\<close> changes the dict at one
  address.
\<close>

type_synonym store = "pydict list"

definition store_copy :: "store \<Rightarrow> nat \<Rightarrow> nat \<times> store" where
  \<comment> \<open>\<open>dict(obj)\<close>: a new dict with the same items, at a fresh address\<close>
  "store_copy h a = (length h, h @ [h ! a])"

definition store_pop :: "store \<Rightarrow> nat \<Rightarrow> string \<Rightarrow> store" where
  \<comment> \<open>\<open>d.pop(k, None)\<close> on the dict at address \<open>a\<close>\<close>
  "store_pop h a k = h[a := dict_pop (h ! a) k]"

definition build_row_store ::
  "settings \<Rightarrow> pyval \<Rightarrow> string \<Rightarrow> 'g \<Rightarrow> store \<Rightarrow> nat \<Rightarrow> 'g row \<times> store" where
  "build_row_store cfg objtype_id objtype_name g h a =
     (let rec = \<lparr>row_id = dict_get (h ! a) ''id'', objekttype = objtype_id,
                 objekttype_navn = objtype_name, geometry = g, properties = None\<rparr>
      in if INCLUDE_PROPERTIES_AS_JSON cfg then
           (let (obj_copy, h1) = store_copy h a;
                h2 = store_pop h1 obj_copy ''geometri''
            in (rec\<lparr>properties := Some (json_dumps False (PDict (h2 ! obj_copy)))\<rparr>, h2))
         else (rec, h))"

definition build_row :: "settings \<Rightarrow> pyval \<Rightarrow> string \<Rightarrow> 'g \<Rightarrow> pydict \<Rightarrow> 'g row" where
  \<comment> \<open>the row built from a record that is the only dict in the store\<close>
  "build_row cfg objtype_id objtype_name g obj =
     fst (build_row_store cfg objtype_id objtype_name g [obj] 0)"

section \<open>Fetching the records of one type\<close>

record 'g counts =
  rows :: "'g row list"
  skipped_no_geom :: int
  skipped_bad_geom :: int
  fetched :: int

definition no_counts :: "'g counts" where
  "no_counts = \<lparr>rows = [], skipped_no_geom = 0, skipped_bad_geom = 0, fetched = 0\<rparr>"

definition loop_body ::
  "settings \<Rightarrow> 'g env \<Rightarrow> pyval \<Rightarrow> string \<Rightarrow> pyval \<Rightarrow> 'g counts \<Rightarrow> 'g counts option" where
  \<comment> \<open>one pass through the body of \<open>for obj in nvdb\<close>; \<open>None\<close> when it raises
      (\<open>obj.get\<close> on something that is not a dict)\<close>
  "loop_body cfg env objtype_id objtype_name obj c =
     (case obj of
        PDict d \<Rightarrow>
          (let c = c\<lparr>fetched := fetched c + 1\<rparr>;
               geom = dict_get d ''geometri'';
               geometry = parse_geometry env geom
           in if \<not> py_truthy geom then Some (c\<lparr>skipped_no_geom := skipped_no_geom c + 1\<rparr>)
              else case geometry of
                None \<Rightarrow> Some (c\<lparr>skipped_bad_geom := skipped_bad_geom c + 1\<rparr>)
              | Some g \<Rightarrow>
                  Some (c\<lparr>rows := rows c @ [build_row cfg objtype_id objtype_name g d]\<rparr>))
      | _ \<Rightarrow> None)"

fun fetch_loop ::
  "settings \<Rightarrow> 'g env \<Rightarrow> pyval \<Rightarrow> string \<Rightarrow> pyval list \<Rightarrow> stream_end \<Rightarrow> 'g counts
     \<Rightarrow> 'g counts option" where
  \<comment> \<open>the loop over the results of a query: the items it yields, and how it ends\<close>
  "fetch_loop cfg env objtype_id objtype_name [] e c =
     (case e of Exhausted \<Rightarrow> Some c | Raises \<Rightarrow> None)"
| "fetch_loop cfg env objtype_id objtype_name (obj # rest) e c =
     (case loop_body cfg env objtype_id objtype_name obj c of
        None \<Rightarrow> None
      | Some c' \<Rightarrow> fetch_loop cfg env objtype_id objtype_name rest e c')"

section \<open>The run: one layer per type\<close>

text \<open>
  The catalog is the list of dicts that \<open>nvdbObjekttyper()\<close> yields. The state of a
  run holds the counters of \<open>main\<close>, whether the output file exists, and two
  records of what the run did to the outside: \<open>written\<close>, the calls of
  \<open>to_file\<close> in order, and \<open>queried\<close>, the type ids \<open>nvdbFagdata\<close> was called
  with, in order. A write that the library refuses for another reason than the
  \<open>mode\<close> keyword is not modelled. The one exception that leaves \<open>main\<close> is the
  \<open>AttributeError\<close> of \<open>safe_layer_name\<close> on a name that is not a \<open>str\<close>.
\<close>

datatype error = AttributeError

record 'g layer_write =
  w_layer :: string
  w_mode :: "string option"
  w_crs :: string
  w_rows :: "'g row list"

record 'g run_state =
  outfile_exists :: bool
  written :: "'g layer_write list"
  queried :: "pyval list"
  total_features :: int
  total_skipped_no_geom :: int
  total_skipped_bad_geom :: int
  failed_types :: int

definition initial_state :: "'g env \<Rightarrow> 'g run_state" where
  "initial_state env =
     \<lparr>outfile_exists = outfile_preexists env, written = [], queried = [],
      total_features = 0, total_skipped_no_geom = 0, total_skipped_bad_geom = 0,
      failed_types = 0\<rparr>"

definition has_geom :: "pydict \<Rightarrow> bool" where
  \<comment> \<open>the test of the catalog filter\<close>
  "has_geom o' =
     (let hg = dict_get o' ''harGeometri'';
          hg = (if hg = PNone then dict_get o' ''har_geometri'' else hg)
      in py_truthy hg)"

definition objtype_fallback :: "pydict \<Rightarrow> string" where
  \<comment> \<open>\<open>f"objtype_{objtype_id}"\<close>\<close>
  "objtype_fallback o' = ''objtype_'' @ py_str (dict_get o' ''id'')"

definition to_file :: "settings \<Rightarrow> 'g env \<Rightarrow> 'g run_state \<Rightarrow> string \<Rightarrow> 'g row list \<Rightarrow> 'g run_state" where
  \<comment> \<open>the write of one layer: with \<open>mode=\<close>, or without it where the library raises
      \<open>TypeError\<close> for the keyword; each call is recorded\<close>
  "to_file cfg env st layer rws =
     (let mode = (if \<not> outfile_exists st then ''w'' else ''a'');
          call = \<lparr>w_layer = layer,
                  w_mode = (if mode_keyword_accepted env then Some mode else None),
                  w_crs = CRS cfg, w_rows = rws\<rparr>
      in st\<lparr>written := written st @ [call], outfile_exists := True\<rparr>)"

definition export_type ::
  "settings \<Rightarrow> 'g env \<Rightarrow> 'g run_state \<Rightarrow> pydict \<Rightarrow> error + 'g run_state" where
  \<comment> \<open>the body of the loop over \<open>objtypes\<close>\<close>
  "export_type cfg env st o' =
     (let objtype_id = dict_get o' ''id'';
          objtype_name = py_or (dict_get o' ''navn'') (PStr (objtype_fallback o'))
      in case objtype_name of
           PStr name \<Rightarrow>
             (let layer = safe_layer_name name (objtype_fallback o');
                  st = st\<lparr>queried := queried st @ [objtype_id]\<rparr>
              in case nvdbFagdata env objtype_id (FYLKE cfg) of
                   SetupFails \<Rightarrow> Inr (st\<lparr>failed_types := failed_types st + 1\<rparr>)
                 | Results items e \<Rightarrow>
                     (case fetch_loop cfg env objtype_id name items e no_counts of
                        None \<Rightarrow> Inr (st\<lparr>failed_types := failed_types st + 1\<rparr>)
                      | Some c \<Rightarrow>
                          if rows c = [] then
                            Inr (st\<lparr>total_skipped_no_geom :=
                                       total_skipped_no_geom st + skipped_no_geom c,
                                     total_skipped_bad_geom :=
                                       total_skipped_bad_geom st + skipped_bad_geom c\<rparr>)
                          else
                            (let st = to_file cfg env st layer (rows c)
                             in Inr (st\<lparr>total_features :=
                                            total_features st + int (length (rows c)),
                                          total_skipped_no_geom :=
                                            total_skipped_no_geom st + skipped_no_geom c,
                                          total_skipped_bad_geom :=
                                            total_skipped_bad_geom st + skipped_bad_geom c\<rparr>))))
         | _ \<Rightarrow> Inl AttributeError)"

fun export_types ::
  "settings \<Rightarrow> 'g env \<Rightarrow> 'g run_state \<Rightarrow> pydict list \<Rightarrow> error + 'g run_state" where
  "export_types cfg env st [] = Inr st"
| "export_types cfg env st (o' # os) =
     (case export_type cfg env st o' of
        Inl err \<Rightarrow> Inl err
      | Inr st' \<Rightarrow> export_types cfg env st' os)"

definition main :: "settings \<Rightarrow> 'g env \<Rightarrow> pydict list \<Rightarrow> error + 'g run_state" where
  "main cfg env ot = export_types cfg env (initial_state env) (filter has_geom ot)"

section \<open>Notions used in the statements\<close>

definition flag_under_either_spelling :: "pydict \<Rightarrow> bool" where
  \<comment> \<open>the test as the specification words it: a truthy flag under either spelling\<close>
  "flag_under_either_spelling o' =
     (py_truthy (dict_get o' ''harGeometri'') \<or> py_truthy (dict_get o' ''har_geometri''))"

definition objtype_layer :: "pydict \<Rightarrow> string" where
  \<comment> \<open>the layer name the run computes for a catalog entry\<close>
  "objtype_layer o' =
     (case py_or (dict_get o' ''navn'') (PStr (objtype_fallback o')) of
        PStr name \<Rightarrow> safe_layer_name name (objtype_fallback o')
      | _ \<Rightarrow> [])"

definition objtype_rows :: "settings \<Rightarrow> 'g env \<Rightarrow> pydict \<Rightarrow> 'g row list" where
  \<comment> \<open>the rows the fetch of a catalog entry ends with; none when it fails\<close>
  "objtype_rows cfg env o' =
     (case py_or (dict_get o' ''navn'') (PStr (objtype_fallback o')) of
        PStr name \<Rightarrow>
          (case nvdbFagdata env (dict_get o' ''id'') (FYLKE cfg) of
             SetupFails \<Rightarrow> []
           | Results items e \<Rightarrow>
               (case fetch_loop cfg env (dict_get o' ''id'') name items e no_counts of
                  None \<Rightarrow> []
                | Some c \<Rightarrow> rows c))
      | _ \<Rightarrow> [])"

section \<open>An example environment\<close>

text \<open>
  A small library and a small API, for evaluating the program on concrete inputs:
  \<open>shape\<close> builds a point from a GeoJSON-like dict with two integer coordinates,
  \<open>wkt.loads\<close> reads one text, and the API knows the types 10 to 13.
\<close>

datatype geom = Point int int

definition demo_shape :: "pydict \<Rightarrow> geom option" where
  "demo_shape d =
     (case dict_get d ''coordinates'' of
        PList [PInt x, PInt y] \<Rightarrow>
          if dict_get d ''type'' = PStr ''Point'' then Some (Point x y) else None
      | _ \<Rightarrow> None)"

definition demo_wkt_loads :: "string \<Rightarrow> geom option" where
  "demo_wkt_loads s = (if s = ''POINT (10 70)'' then Some (Point 10 70) else None)"



definition demo_point_record :: pydict where
  "demo_point_record =
     [(''id'', PInt 1),
      (''geometri'', PDict [(''type'', PStr ''Point''),
                            (''coordinates'', PList [PInt 10, PInt 70])])]"

definition demo_records :: "pyval list" where
  "demo_records =
     [PDict demo_point_record,
      PDict [(''id'', PInt 2), (''geometri'', PStr ''INVALID_WKT_@@@'')],
      PDict [(''id'', PInt 3)],
      PDict [(''id'', PInt 4), (''geometri'', PStr '''')]]"

definition demo_nvdbFagdata :: "pyval \<Rightarrow> int \<Rightarrow> query" where
  "demo_nvdbFagdata objtype_id fylke =
     (if objtype_id = PInt 10 then Results demo_records Exhausted
      else if objtype_id = PInt 11 then Results demo_records Raises
      else if objtype_id = PInt 12 then Results (take 1 demo_records) Exhausted
      else if objtype_id = PInt 13 then Results (drop 1 demo_records) Exhausted
      else SetupFails)"

definition demo_env :: "geom env" where
  "demo_env =
     \<lparr>shape = demo_shape, wkt_loads = demo_wkt_loads, nvdbFagdata = demo_nvdbFagdata,
      mode_keyword_accepted = True, outfile_preexists = False\<rparr>"

definition demo_type_11 :: pydict where
  "demo_type_11 = [(''id'', PInt 11), (''navn'', PStr ''Ras''), (''harGeometri'', PBool True)]"


definition demo_bad_point :: pydict where
  "demo_bad_point = [(''type'', PStr ''Point''), (''coordinates'', PList [PStr ''x''])]"

definition demo_hidden_WKT :: pydict where
  "demo_hidden_WKT =
     demo_bad_point @ [(''wkt'', PInt 5), (''WKT'', PStr ''POINT (10 70)'')]"

definition demo_types :: "pydict list" where
  "demo_types =
     [[(''id'', PInt 10), (''navn'', PStr ''Skred''), (''harGeometri'', PBool True)],
      [(''id'', PInt 20), (''navn'', PStr ''Uten''), (''harGeometri'', PBool False)],
      demo_type_11,
      [(''id'', PInt 21), (''navn'', PStr ''Ukjent'')],
      [(''id'', PInt 12), (''navn'', PStr ''A B''), (''har_geometri'', PBool True)],
      [(''id'', PInt 13), (''navn'', PStr ''Tom''), (''harGeometri'', PNone),
       (''har_geometri'', PInt 1)]]"

definition demo_conflicting_type :: pydict where
  "demo_conflicting_type =
     [(''id'', PInt 12), (''navn'', PStr ''A B''), (''harGeometri'', PBool False),
      (''har_geometri'', PBool True)]"

definition demo_final_state :: "geom run_state" where
  "demo_final_state =
     \<lparr>outfile_exists = True,
      written =
        [\<lparr>w_layer = ''skred'', w_mode = Some ''w'', w_crs = ''EPSG:5973'',
          w_rows = [build_row default_settings (PInt 10) ''Skred'' (Point 10 70)
                      demo_point_record]\<rparr>,
         \<lparr>w_layer = ''a_b'', w_mode = Some ''a'', w_crs = ''EPSG:5973'',
          w_rows = [build_row default_settings (PInt 12) ''A B'' (Point 10 70)
                      demo_point_record]\<rparr>],
      queried = [PInt 10, PInt 11, PInt 12, PInt 13],
      total_features = 2, total_skipped_no_geom = 4, total_skipped_bad_geom = 2,
      failed_types = 1\<rparr>"

definition demo_colliding_types :: "pydict list" where
  "demo_colliding_types =
     [[(''id'', PInt 10), (''navn'', PStr ''A B''), (''harGeometri'', PBool True)],
      [(''id'', PInt 12), (''navn'', PStr ''a-b''), (''harGeometri'', PBool True)]]"

definition demo_named_record :: pydict where
  "demo_named_record =
     [(''id'', PInt 7),
      (''geometri'', PStr ''POINT (10 70)''),
      (''navn'', PStr [CHR ''B'', CHR 0xF8, CHR ''r'']),
      (''felt'', PList [PInt 1, PNone, PBool True])]"

definition demo_named_json :: string where
  "demo_named_json =
     [CHR ''{'', CHR 0x22] @ ''id'' @ [CHR 0x22] @ '': 7, '' @
     [CHR 0x22] @ ''navn'' @ [CHR 0x22] @ '': '' @
     [CHR 0x22, CHR ''B'', CHR 0xF8, CHR ''r'', CHR 0x22] @ '', '' @
     [CHR 0x22] @ ''felt'' @ [CHR 0x22] @ '': [1, null, true]}''"

section \<open>Properties of the layer name sanitizer\<close>

lemma layer_char_underscore: "layer_char (CHR ''_'')"
  by (simp add: layer_char_def)

lemma list_all_dropWhile: "list_all Q s \<Longrightarrow> list_all Q (dropWhile P s)"
  by (induction s) simp_all

lemma list_all_re_sub_runs:
  "Q (CHR ''_'') \<Longrightarrow> list_all (\<lambda>c. P c \<or> Q c) s \<Longrightarrow> list_all Q (re_sub_runs P s)"
proof (induction P s rule: re_sub_runs.induct)
  case (1 P)
  show ?case by simp
next
  case (2 P c cs)
  from 2(4) have tl: "list_all (\<lambda>c. P c \<or> Q c) cs" and hd: "P c \<or> Q c"
    by simp_all
  show ?case
  proof (cases "P c")
    case True
    from tl have "list_all (\<lambda>c. P c \<or> Q c) (dropWhile P cs)"
      by (rule list_all_dropWhile)
    with 2(1) [OF True 2(3)] have "list_all Q (re_sub_runs P (dropWhile P cs))" .
    with True 2(3) show ?thesis by simp
  next
    case False
    with hd have "Q c" by simp
    moreover from 2(2) [OF False 2(3) tl] have "list_all Q (re_sub_runs P cs)" .
    ultimately show ?thesis using False by simp
  qed
qed

lemma list_all_py_strip_chars: "list_all Q s \<Longrightarrow> list_all Q (py_strip_chars chars s)"
  by (simp add: py_strip_chars_def py_rstrip_def py_lstrip_def list_all_dropWhile)

lemma sanitized_class:
  "list_all layer_char
     (py_strip_chars ''_'' (re_sub_runs (\<lambda>c. c = CHR ''_'')
        (re_sub_runs (\<lambda>c. \<not> layer_char c) s)))"
proof -
  let ?a = "re_sub_runs (\<lambda>c. \<not> layer_char c) s"
  let ?b = "re_sub_runs (\<lambda>c. c = CHR ''_'') ?a"
  have "list_all (\<lambda>c. \<not> layer_char c \<or> layer_char c) s"
    by (induction s) simp_all
  then have a: "list_all layer_char ?a"
    by (rule list_all_re_sub_runs [where Q = layer_char, OF layer_char_underscore])
  then have "list_all (\<lambda>c. c = CHR ''_'' \<or> layer_char c) ?a"
    by (rule list.pred_mono_strong) simp
  then have "list_all layer_char ?b"
    by (rule list_all_re_sub_runs [where Q = layer_char, OF layer_char_underscore])
  then show ?thesis
    by (rule list_all_py_strip_chars)
qed

lemma valid_take: "s \<noteq> [] \<Longrightarrow> list_all layer_char s \<Longrightarrow> valid_layer_name (take 50 s)"
  by (cases s) (auto simp: valid_layer_name_def list_all_iff dest: in_set_takeD)

text \<open>
  The result of the sanitizer never has more than 50 characters. When the fallback is
  itself non-empty and consists only of lowercase letters, digits and underscores, the
  result is a non-empty string of at most 50 such characters.
\<close>

lemma safe_layer_name_valid:
  "length (safe_layer_name name fallback) \<le> 50 \<and>
   (fallback \<noteq> [] \<and> list_all layer_char fallback \<longrightarrow>
      valid_layer_name (safe_layer_name name fallback))"
proof (intro conjI impI)
  show "length (safe_layer_name name fallback) \<le> 50"
    by (simp add: safe_layer_name_def Let_def)
next
  assume fb: "fallback \<noteq> [] \<and> list_all layer_char fallback"
  define n1 where "n1 = (if name = [] then fallback else name)"
  define n2 where "n2 = py_strip_chars ''_'' (re_sub_runs (\<lambda>c. c = CHR ''_'')
        (re_sub_runs (\<lambda>c. \<not> layer_char c) (py_lower (py_strip n1))))"
  have cls: "list_all layer_char n2"
    unfolding n2_def by (rule sanitized_class)
  have eq: "safe_layer_name name fallback = take 50 (if n2 = [] then fallback else n2)"
    unfolding safe_layer_name_def Let_def n2_def n1_def by (rule refl)
  show "valid_layer_name (safe_layer_name name fallback)"
  proof (cases "n2 = []")
    case True
    then have "safe_layer_name name fallback = take 50 fallback"
      using eq by simp
    with fb show ?thesis by (simp add: valid_take)
  next
    case False
    then have "safe_layer_name name fallback = take 50 n2"
      using eq by simp
    with False cls show ?thesis by (simp add: valid_take)
  qed
qed

text \<open>
  Claim C1: for every raw name and every fallback the sanitizer returns a non-empty
  string of at most 50 lowercase letters, digits and underscores. The code does not do
  this. A fallback that takes the place of an empty raw name is sanitized: with the
  fallback \<open>A B\<close> the result is \<open>a_b\<close>. A fallback that takes the place of a
  name of which nothing is left after sanitization is returned as it is: the result is
  \<open>A B\<close>, with its capitals and its space. In a run, a catalog entry without an
  id whose name is \<open>!!!\<close> gets the layer name \<open>objtype_None\<close>.
\<close>

theorem safe_layer_name_returns_raw_fallback:
  "safe_layer_name ''!!!'' ''A B'' = ''A B'' \<and>
   \<not> valid_layer_name (safe_layer_name ''!!!'' ''A B'') \<and>
   safe_layer_name [] ''A B'' = ''a_b'' \<and>
   valid_layer_name (safe_layer_name [] ''A B'') \<and>
   objtype_layer [(''navn'', PStr ''!!!''), (''harGeometri'', PBool True)] = ''objtype_None'' \<and>
   \<not> valid_layer_name ''objtype_None''"
  by code_simp

section \<open>Properties of the fetch loop\<close>

lemma loop_body_counts:
  assumes "loop_body cfg env i n obj c = Some c'"
  shows "fetched c' = fetched c + 1 \<and>
         int (length (rows c')) + skipped_no_geom c' + skipped_bad_geom c' =
           int (length (rows c)) + skipped_no_geom c + skipped_bad_geom c + 1"
  using assms
  by (auto simp: loop_body_def Let_def split: pyval.splits if_splits option.splits)

lemma fetch_loop_counts:
  "fetch_loop cfg env i n items e c = Some c' \<Longrightarrow>
     fetched c' = fetched c + int (length items) \<and>
     int (length (rows c')) + skipped_no_geom c' + skipped_bad_geom c' =
       int (length (rows c)) + skipped_no_geom c + skipped_bad_geom c + int (length items)"
proof (induction items arbitrary: c)
  case Nil
  then show ?case by (simp split: stream_end.splits)
next
  case (Cons obj rest)
  from Cons.prems obtain c1 where
    b: "loop_body cfg env i n obj c = Some c1" and
    r: "fetch_loop cfg env i n rest e c1 = Some c'"
    by (auto split: option.splits)
  from loop_body_counts [OF b] Cons.IH [OF r] show ?case by simp
qed

text \<open>
  Claim C5. When the iteration over the results of a type completes without an
  exception, every fetched record has been counted in exactly one of the three buckets:
  the number of fetched records is the number of rows built plus the records skipped
  for no geometry plus the records skipped for bad geometry, and it is the number of
  records the query yielded.
\<close>

theorem fetched_is_rows_plus_skipped:
  assumes "fetch_loop cfg env objtype_id objtype_name items e no_counts = Some c"
  shows "fetched c = int (length (rows c)) + skipped_no_geom c + skipped_bad_geom c \<and>
         fetched c = int (length items)"
  using fetch_loop_counts [OF assms] by (simp add: no_counts_def)

theorem fetched_is_rows_plus_skipped_witness:
  "fetch_loop default_settings demo_env (PInt 10) ''Skred'' demo_records Exhausted no_counts
     = Some \<lparr>rows = [build_row default_settings (PInt 10) ''Skred'' (Point 10 70)
                        demo_point_record],
              skipped_no_geom = 2, skipped_bad_geom = 1, fetched = 4\<rparr> \<and>
   (4::int) = int (length [build_row default_settings (PInt 10) ''Skred'' (Point 10 70)
                             demo_point_record]) + 2 + 1 \<and>
   (4::int) = int (length demo_records)"
proof -
  let ?r = "build_row default_settings (PInt 10) ''Skred'' (Point 10 70) demo_point_record"
  have c: "fetch_loop default_settings demo_env (PInt 10) ''Skred'' demo_records Exhausted
             no_counts
           = Some \<lparr>rows = [?r], skipped_no_geom = 2, skipped_bad_geom = 1, fetched = 4\<rparr>"
    by code_simp
  from fetched_is_rows_plus_skipped [OF c] c show ?thesis by simp
qed





section \<open>Properties of the geometry normalizer\<close>

lemma parse_geometry_falsy: "\<not> py_truthy geom \<Longrightarrow> parse_geometry env geom = None"
  by (simp add: parse_geometry_def)

lemma parse_geometry_other:
  "\<not> is_dict geom \<Longrightarrow> \<not> is_str geom \<Longrightarrow> parse_geometry env geom = None"
  by (cases geom) (simp_all add: parse_geometry_def)

text \<open>
  Claim C3, as amended. The normalizer has one result for every input it gives no
  geometry for, \<open>None\<close>, whether the value is missing or unparseable; the caller
  tells the two apart by the truth value of the raw geometry field. A record whose
  geometry field is falsy (null or absent, and also the empty string, the empty dict,
  the empty list, zero and false) is counted as skipped for no geometry. A record whose
  geometry field is truthy and neither a dict nor a string gets no geometry from the
  normalizer and is counted as skipped for bad geometry.
\<close>

theorem geometry_skip_buckets:
  assumes "dict_get d ''geometri'' = geom"
  shows "(\<not> py_truthy geom \<longrightarrow>
            parse_geometry env geom = None \<and>
            loop_body cfg env objtype_id objtype_name (PDict d) c =
              Some (c\<lparr>fetched := fetched c + 1,
                       skipped_no_geom := skipped_no_geom c + 1\<rparr>)) \<and>
         (py_truthy geom \<and> \<not> is_dict geom \<and> \<not> is_str geom \<longrightarrow>
            parse_geometry env geom = None \<and>
            loop_body cfg env objtype_id objtype_name (PDict d) c =
              Some (c\<lparr>fetched := fetched c + 1,
                       skipped_bad_geom := skipped_bad_geom c + 1\<rparr>))"
  using assms
  by (simp add: loop_body_def Let_def parse_geometry_falsy parse_geometry_other)

theorem geometry_skip_buckets_witness:
  "\<not> py_truthy (PStr '''') \<and>
   loop_body default_settings demo_env (PInt 10) ''Skred''
       (PDict [(''id'', PInt 4), (''geometri'', PStr '''')]) no_counts =
     Some \<lparr>rows = [], skipped_no_geom = 1, skipped_bad_geom = 0, fetched = 1\<rparr> \<and>
   py_truthy (PInt 5) \<and> \<not> is_dict (PInt 5) \<and> \<not> is_str (PInt 5) \<and>
   loop_body default_settings demo_env (PInt 10) ''Skred''
       (PDict [(''id'', PInt 4), (''geometri'', PInt 5)]) no_counts =
     Some \<lparr>rows = [], skipped_no_geom = 0, skipped_bad_geom = 1, fetched = 1\<rparr>"
proof -
  have g1: "dict_get [(''id'', PInt 4), (''geometri'', PStr '''')] ''geometri'' = PStr ''''"
    by code_simp
  have g2: "dict_get [(''id'', PInt 4), (''geometri'', PInt 5)] ''geometri'' = PInt 5"
    by code_simp
  have f1: "\<not> py_truthy (PStr '''')" by simp
  have f2: "py_truthy (PInt 5) \<and> \<not> is_dict (PInt 5) \<and> \<not> is_str (PInt 5)" by simp
  from geometry_skip_buckets [OF g1, of demo_env default_settings "PInt 10" "''Skred''" no_counts] f1
  have a: "loop_body default_settings demo_env (PInt 10) ''Skred''
       (PDict [(''id'', PInt 4), (''geometri'', PStr '''')]) no_counts =
     Some \<lparr>rows = [], skipped_no_geom = 1, skipped_bad_geom = 0, fetched = 1\<rparr>"
    by (simp add: no_counts_def)
  from geometry_skip_buckets [OF g2, of demo_env default_settings "PInt 10" "''Skred''" no_counts] f2
  have b: "loop_body default_settings demo_env (PInt 10) ''Skred''
       (PDict [(''id'', PInt 4), (''geometri'', PInt 5)]) no_counts =
     Some \<lparr>rows = [], skipped_no_geom = 0, skipped_bad_geom = 1, fetched = 1\<rparr>"
    by (simp add: no_counts_def)
  from f1 f2 a b show ?thesis by simp
qed

text \<open>
  The claim as stated fails at the empty string: it is neither null nor a dict nor a
  non-empty string, and the record is counted as skipped for no geometry, not for bad
  geometry. The normalizer's result for a null value is its result for an unparseable
  text.
\<close>

theorem empty_string_geometry_counterexample:
  "PStr '''' \<noteq> PNone \<and> \<not> is_dict (PStr '''') \<and>
   loop_body default_settings demo_env (PInt 10) ''Skred''
       (PDict [(''id'', PInt 4), (''geometri'', PStr '''')]) no_counts =
     Some \<lparr>rows = [], skipped_no_geom = 1, skipped_bad_geom = 0, fetched = 1\<rparr> \<and>
   parse_geometry demo_env PNone = parse_geometry demo_env (PStr ''INVALID_WKT_@@@'')"
  by code_simp

text \<open>
  Claim C6, as amended. For a dict with a string under \<open>type\<close> and a value under
  \<open>coordinates\<close>, when \<open>shape\<close> fails the normalizer goes on to the text in
  the dict instead of giving up. It takes the value under \<open>wkt\<close>, and the value
  under \<open>WKT\<close> only when the first is falsy (null, absent or empty). When the
  value taken is a string with more than whitespace, the result is what
  \<open>wkt.loads\<close> gives for it. There is no geometry exactly when the value taken is
  not such a string or its parse fails.
\<close>

theorem failed_shape_falls_through_to_wkt:
  assumes "is_str (dict_get d ''type'')"
    and "dict_get d ''coordinates'' \<noteq> PNone"
    and "shape env d = None"
  shows "parse_geometry env (PDict d) =
           (case py_or (dict_get d ''wkt'') (dict_get d ''WKT'') of
              PStr t \<Rightarrow> if py_strip t \<noteq> [] then wkt_loads env t else None
            | _ \<Rightarrow> None) \<and>
         py_or (dict_get d ''wkt'') (dict_get d ''WKT'') =
           (if py_truthy (dict_get d ''wkt'') then dict_get d ''wkt''
            else dict_get d ''WKT'') \<and>
         (parse_geometry env (PDict d) = None \<longleftrightarrow>
            (case py_or (dict_get d ''wkt'') (dict_get d ''WKT'') of
               PStr t \<Rightarrow> py_strip t = [] \<or> wkt_loads env t = None
             | _ \<Rightarrow> True))"
proof -
  from assms(2) have "d \<noteq> []"
    by (auto simp: dict_get_def)
  with assms have eq:
    "parse_geometry env (PDict d) =
       (case py_or (dict_get d ''wkt'') (dict_get d ''WKT'') of
          PStr t \<Rightarrow> if py_strip t \<noteq> [] then wkt_loads env t else None
        | _ \<Rightarrow> None)"
    by (simp add: parse_geometry_def wkt_in_dict_def Let_def)
  have "parse_geometry env (PDict d) = None \<longleftrightarrow>
          (case py_or (dict_get d ''wkt'') (dict_get d ''WKT'') of
             PStr t \<Rightarrow> py_strip t = [] \<or> wkt_loads env t = None
           | _ \<Rightarrow> True)"
    unfolding eq
    by (cases "py_or (dict_get d ''wkt'') (dict_get d ''WKT'')") simp_all
  moreover have "py_or (dict_get d ''wkt'') (dict_get d ''WKT'') =
           (if py_truthy (dict_get d ''wkt'') then dict_get d ''wkt''
            else dict_get d ''WKT'')"
    by (simp add: py_or_def)
  ultimately show ?thesis
    using eq by blast
qed

theorem failed_shape_falls_through_to_wkt_witness:
  "is_str (dict_get (demo_bad_point @ [(''wkt'', PStr ''POINT (10 70)'')]) ''type'') \<and>
   dict_get (demo_bad_point @ [(''wkt'', PStr ''POINT (10 70)'')]) ''coordinates'' \<noteq> PNone \<and>
   shape demo_env (demo_bad_point @ [(''wkt'', PStr ''POINT (10 70)'')]) = None \<and>
   parse_geometry demo_env (PDict (demo_bad_point @ [(''wkt'', PStr ''POINT (10 70)'')]))
     = Some (Point 10 70) \<and>
   parse_geometry demo_env (PDict (demo_bad_point @ [(''WKT'', PStr ''POINT (10 70)'')]))
     = Some (Point 10 70) \<and>
   parse_geometry demo_env (PDict (demo_bad_point @ [(''Wkt'', PStr ''POINT (10 70)'')]))
     = None \<and>
   parse_geometry demo_env (PDict (demo_bad_point @ [(''wkt'', PStr ''POINT (1 2'')]))
     = None \<and>
   parse_geometry demo_env (PDict demo_bad_point) = None"
proof -
  let ?d = "demo_bad_point @ [(''wkt'', PStr ''POINT (10 70)'')]"
  have h1: "is_str (dict_get ?d ''type'')" by code_simp
  have h2: "dict_get ?d ''coordinates'' \<noteq> PNone" by code_simp
  have h3: "shape demo_env ?d = None" by code_simp
  have w: "(case py_or (dict_get ?d ''wkt'') (dict_get ?d ''WKT'') of
              PStr t \<Rightarrow> if py_strip t \<noteq> [] then wkt_loads demo_env t else None
            | _ \<Rightarrow> None) = Some (Point 10 70)"
    by code_simp
  have p: "parse_geometry demo_env (PDict ?d) = Some (Point 10 70)"
    using failed_shape_falls_through_to_wkt [OF h1 h2 h3, THEN conjunct1] w by simp
  have rest:
    "parse_geometry demo_env (PDict (demo_bad_point @ [(''WKT'', PStr ''POINT (10 70)'')]))
       = Some (Point 10 70) \<and>
     parse_geometry demo_env (PDict (demo_bad_point @ [(''Wkt'', PStr ''POINT (10 70)'')]))
       = None \<and>
     parse_geometry demo_env (PDict (demo_bad_point @ [(''wkt'', PStr ''POINT (1 2'')]))
       = None \<and>
     parse_geometry demo_env (PDict demo_bad_point) = None"
    by code_simp
  from h1 h2 h3 p rest show ?thesis by simp
qed

text \<open>
  The claim as stated, that the text is looked for under both spellings and that there
  is no geometry only when its parse fails or no such key is present, fails when the
  value under \<open>wkt\<close> is truthy and unusable, a number or a blank text: a text
  under \<open>WKT\<close> that \<open>wkt.loads\<close> reads is then never tried.
\<close>

theorem unusable_wkt_hides_WKT_counterexample:
  "is_str (dict_get demo_hidden_WKT ''type'') \<and>
   dict_get demo_hidden_WKT ''coordinates'' \<noteq> PNone \<and>
   shape demo_env demo_hidden_WKT = None \<and>
   dict_get demo_hidden_WKT ''wkt'' = PInt 5 \<and>
   dict_get demo_hidden_WKT ''WKT'' = PStr ''POINT (10 70)'' \<and>
   wkt_loads demo_env ''POINT (10 70)'' = Some (Point 10 70) \<and>
   parse_geometry demo_env (PDict demo_hidden_WKT) = None \<and>
   parse_geometry demo_env
     (PDict (demo_bad_point @ [(''wkt'', PStr '' ''), (''WKT'', PStr ''POINT (10 70)'')]))
     = None"
  by code_simp



section \<open>Properties of the run\<close>

lemma has_geom_iff:
  "has_geom o' \<longleftrightarrow>
     py_truthy (dict_get o' ''harGeometri'') \<or>
     (dict_get o' ''harGeometri'' = PNone \<and> py_truthy (dict_get o' ''har_geometri''))"
  by (auto simp: has_geom_def Let_def)

lemma export_type_queried:
  "export_type cfg env st o' = Inr st' \<Longrightarrow> queried st' = queried st @ [dict_get o' ''id'']"
  by (auto simp: export_type_def Let_def to_file_def
           split: pyval.splits query.splits option.splits if_splits)

lemma export_types_queried:
  "export_types cfg env st os = Inr st' \<Longrightarrow>
     queried st' = queried st @ map (\<lambda>o'. dict_get o' ''id'') os"
proof (induction os arbitrary: st)
  case Nil
  then show ?case by simp
next
  case (Cons o' os)
  from Cons.prems obtain st1 where
    s1: "export_type cfg env st o' = Inr st1" and
    s2: "export_types cfg env st1 os = Inr st'"
    by (auto split: sum.splits)
  from export_type_queried [OF s1] Cons.IH [OF s2] show ?case by simp
qed

text \<open>
  Claim C4, as amended. In a run that completes, a query is set up for exactly the
  catalog entries that pass the filter, in catalog order, and for no other entry. An
  entry passes when its flag under \<open>harGeometri\<close> is truthy, or when that flag is
  null or absent and the flag under \<open>har_geometri\<close> is truthy: the second spelling
  is read only when the first gives nothing.
\<close>

theorem attempted_types_are_the_filtered_ones:
  assumes "main cfg env ot = Inr st"
  shows "queried st = map (\<lambda>o'. dict_get o' ''id'') (filter has_geom ot) \<and>
         length (queried st) = length (filter has_geom ot) \<and>
         (\<forall>o'. has_geom o' \<longleftrightarrow>
            py_truthy (dict_get o' ''harGeometri'') \<or>
            (dict_get o' ''harGeometri'' = PNone \<and> py_truthy (dict_get o' ''har_geometri'')))"
proof -
  from assms have "queried st = map (\<lambda>o'. dict_get o' ''id'') (filter has_geom ot)"
    using export_types_queried [of cfg env "initial_state env" "filter has_geom ot" st]
    by (simp add: main_def initial_state_def)
  then show ?thesis
    using has_geom_iff by simp
qed

theorem attempted_types_are_the_filtered_ones_witness:
  "main default_settings demo_env demo_types = Inr demo_final_state \<and>
   length demo_types = 6 \<and>
   queried demo_final_state = [PInt 10, PInt 11, PInt 12, PInt 13] \<and>
   map (\<lambda>o'. dict_get o' ''id'') (filter has_geom demo_types)
     = [PInt 10, PInt 11, PInt 12, PInt 13]"
proof -
  have m: "main default_settings demo_env demo_types = Inr demo_final_state"
    by code_simp
  have q: "queried demo_final_state = [PInt 10, PInt 11, PInt 12, PInt 13]"
    by (simp add: demo_final_state_def)
  have n: "length demo_types = 6"
    by (simp add: demo_types_def)
  have "queried demo_final_state
          = map (\<lambda>o'. dict_get o' ''id'') (filter has_geom demo_types)"
    by (rule attempted_types_are_the_filtered_ones [OF m, THEN conjunct1])
  with q have f: "map (\<lambda>o'. dict_get o' ''id'') (filter has_geom demo_types)
                    = [PInt 10, PInt 11, PInt 12, PInt 13]"
    by simp
  from m n q f show ?thesis
    by (intro conjI)
qed

text \<open>
  The claim as stated fails for an entry whose flag is false under \<open>harGeometri\<close>
  and true under \<open>har_geometri\<close>: it carries a truthy flag under one of the two
  spellings, and no query is set up for it.
\<close>

theorem either_spelling_counterexample:
  "flag_under_either_spelling demo_conflicting_type \<and>
   main default_settings demo_env [demo_conflicting_type] = Inr (initial_state demo_env) \<and>
   queried (initial_state demo_env) = []"
  by code_simp

lemma export_type_written:
  "export_type cfg env st o' = Inr st' \<Longrightarrow>
     map w_layer (written st') =
       map w_layer (written st) @
         (if objtype_rows cfg env o' = [] then [] else [objtype_layer o'])"
  by (auto simp: export_type_def objtype_rows_def objtype_layer_def Let_def to_file_def
           split: pyval.splits query.splits option.splits if_splits)

lemma export_types_written:
  "export_types cfg env st os = Inr st' \<Longrightarrow>
     map w_layer (written st') =
       map w_layer (written st) @
         map objtype_layer (filter (\<lambda>o'. objtype_rows cfg env o' \<noteq> []) os)"
proof (induction os arbitrary: st)
  case Nil
  then show ?case by simp
next
  case (Cons o' os)
  from Cons.prems obtain st1 where
    s1: "export_type cfg env st o' = Inr st1" and
    s2: "export_types cfg env st1 os = Inr st'"
    by (auto split: sum.splits)
  from export_type_written [OF s1] Cons.IH [OF s2] show ?case by simp
qed

text \<open>
  Claim C8, as amended. In a run that completes, the layer names written are, in catalog
  order, the sanitized names of the types that passed the filter and whose fetch ended
  with at least one row; a name depends on the type's name and id only. The names
  written are pairwise distinct exactly when the sanitized names of those types are:
  nothing in the run makes two equal sanitized names differ.
\<close>

theorem written_layer_names:
  assumes "main cfg env ot = Inr st"
  shows "map w_layer (written st) =
           map objtype_layer
             (filter (\<lambda>o'. objtype_rows cfg env o' \<noteq> []) (filter has_geom ot)) \<and>
         (distinct (map w_layer (written st)) \<longleftrightarrow>
            distinct (map objtype_layer
              (filter (\<lambda>o'. objtype_rows cfg env o' \<noteq> []) (filter has_geom ot))))"
proof -
  from assms have
    "map w_layer (written st) =
       map objtype_layer
         (filter (\<lambda>o'. objtype_rows cfg env o' \<noteq> []) (filter has_geom ot))"
    using export_types_written [of cfg env "initial_state env" "filter has_geom ot" st]
    by (simp add: main_def initial_state_def)
  then show ?thesis by simp
qed

theorem written_layer_names_witness:
  "main default_settings demo_env demo_types = Inr demo_final_state \<and>
   map w_layer (written demo_final_state) = [''skred'', ''a_b''] \<and>
   map objtype_layer
     (filter (\<lambda>o'. objtype_rows default_settings demo_env o' \<noteq> [])
        (filter has_geom demo_types)) = [''skred'', ''a_b''] \<and>
   distinct (map w_layer (written demo_final_state))"
proof -
  have m: "main default_settings demo_env demo_types = Inr demo_final_state"
    by code_simp
  have w: "map w_layer (written demo_final_state) = [''skred'', ''a_b'']"
    by (simp add: demo_final_state_def)
  have "map w_layer (written demo_final_state) =
          map objtype_layer
            (filter (\<lambda>o'. objtype_rows default_settings demo_env o' \<noteq> [])
               (filter has_geom demo_types))"
    by (rule written_layer_names [OF m, THEN conjunct1])
  with w have f: "map objtype_layer
     (filter (\<lambda>o'. objtype_rows default_settings demo_env o' \<noteq> [])
        (filter has_geom demo_types)) = [''skred'', ''a_b'']"
    by simp
  have d: "distinct (map w_layer (written demo_final_state))"
    by (simp add: w)
  from m w f d show ?thesis
    by (intro conjI)
qed

text \<open>
  The claim as stated fails for two types whose names sanitize to the same text: both
  layers are written under the name \<open>a_b\<close>.
\<close>

theorem colliding_layer_names_counterexample:
  "(case main default_settings demo_env demo_colliding_types of
      Inl err \<Rightarrow> []
    | Inr st \<Rightarrow> map w_layer (written st)) = [''a_b'', ''a_b''] \<and>
   \<not> distinct (case main default_settings demo_env demo_colliding_types of
                   Inl err \<Rightarrow> []
                 | Inr st \<Rightarrow> map w_layer (written st))"
  by code_simp

section \<open>Properties of the row builder\<close>

lemma build_row_properties:
  "INCLUDE_PROPERTIES_AS_JSON cfg \<Longrightarrow>
     properties (build_row cfg i n g d) = Some (json_dumps False (PDict (dict_pop d ''geometri'')))"
  by (simp add: build_row_def build_row_store_def store_copy_def store_pop_def Let_def)

lemma json_escape_char_non_ascii:
  "128 \<le> (of_char c :: nat) \<Longrightarrow> json_escape_char False c = [c]"
  by (simp add: json_escape_char_def Let_def)

text \<open>
  Claim C7. With the properties-as-text option enabled, a record whose geometry parses
  gives one more row, and the row's \<open>properties\<close> field is the text
  \<open>json.dumps(..., ensure_ascii=False)\<close> gives for the dict of all the record's
  attributes except \<open>geometri\<close>, in their order. In that text every code point
  from 128 on stands as it is, unescaped.
\<close>

theorem row_properties_are_json_of_other_attributes:
  assumes "INCLUDE_PROPERTIES_AS_JSON cfg"
    and "py_truthy (dict_get d ''geometri'')"
    and "parse_geometry env (dict_get d ''geometri'') = Some g"
  shows "loop_body cfg env objtype_id objtype_name (PDict d) c =
           Some (c\<lparr>fetched := fetched c + 1,
                    rows := rows c @ [build_row cfg objtype_id objtype_name g d]\<rparr>) \<and>
         properties (build_row cfg objtype_id objtype_name g d) =
           Some (json_dumps False (PDict (filter (\<lambda>kv. fst kv \<noteq> ''geometri'') d))) \<and>
         (\<forall>ch. 128 \<le> (of_char ch :: nat) \<longrightarrow> json_escape_char False ch = [ch])"
proof (intro conjI allI impI)
  show "loop_body cfg env objtype_id objtype_name (PDict d) c =
          Some (c\<lparr>fetched := fetched c + 1,
                   rows := rows c @ [build_row cfg objtype_id objtype_name g d]\<rparr>)"
    using assms(2,3) by (simp add: loop_body_def Let_def)
next
  show "properties (build_row cfg objtype_id objtype_name g d) =
          Some (json_dumps False (PDict (filter (\<lambda>kv. fst kv \<noteq> ''geometri'') d)))"
    using build_row_properties [OF assms(1)] by (simp add: dict_pop_def)
next
  fix ch :: char
  assume "128 \<le> (of_char ch :: nat)"
  then show "json_escape_char False ch = [ch]"
    by (rule json_escape_char_non_ascii)
qed

theorem row_properties_are_json_of_other_attributes_witness:
  "INCLUDE_PROPERTIES_AS_JSON default_settings \<and>
   py_truthy (dict_get demo_named_record ''geometri'') \<and>
   parse_geometry demo_env (dict_get demo_named_record ''geometri'') = Some (Point 10 70) \<and>
   loop_body default_settings demo_env (PInt 10) ''Skred'' (PDict demo_named_record) no_counts
     = Some \<lparr>rows = [build_row default_settings (PInt 10) ''Skred'' (Point 10 70)
                        demo_named_record],
             skipped_no_geom = 0, skipped_bad_geom = 0, fetched = 1\<rparr> \<and>
   properties (build_row default_settings (PInt 10) ''Skred'' (Point 10 70) demo_named_record)
     = Some demo_named_json \<and>
   json_escape_char False (CHR 0xF8) = [CHR 0xF8] \<and>
   json_escape_char True (CHR 0xF8) = [CHR 0x5C] @ ''u00f8''"
proof -
  have h1: "INCLUDE_PROPERTIES_AS_JSON default_settings"
    by (simp add: default_settings_def)
  have h2: "py_truthy (dict_get demo_named_record ''geometri'')"
    by code_simp
  have h3: "parse_geometry demo_env (dict_get demo_named_record ''geometri'')
              = Some (Point 10 70)"
    by code_simp
  have j: "json_dumps False (PDict (filter (\<lambda>kv. fst kv \<noteq> ''geometri'') demo_named_record))
             = demo_named_json"
    by code_simp
  have n: "128 \<le> (of_char (CHR 0xF8) :: nat)"
    by simp
  have e: "json_escape_char True (CHR 0xF8) = [CHR 0x5C] @ ''u00f8''"
    by code_simp
  note t = row_properties_are_json_of_other_attributes
             [OF h1 h2 h3, of "PInt 10" "''Skred''" no_counts]
  from t have l: "loop_body default_settings demo_env (PInt 10) ''Skred''
                    (PDict demo_named_record) no_counts
     = Some \<lparr>rows = [build_row default_settings (PInt 10) ''Skred'' (Point 10 70)
                        demo_named_record],
             skipped_no_geom = 0, skipped_bad_geom = 0, fetched = 1\<rparr>"
    by (simp add: no_counts_def)
  from t j have p: "properties (build_row default_settings (PInt 10) ''Skred'' (Point 10 70)
                                  demo_named_record) = Some demo_named_json"
    by simp
  from t n have c: "json_escape_char False (CHR 0xF8) = [CHR 0xF8]"
    by blast
  from h1 h2 h3 l p c e show ?thesis
    by (intro conjI)
qed

lemma build_row_store_snd:
  "snd (build_row_store cfg i n g h a) =
     (if INCLUDE_PROPERTIES_AS_JSON cfg then h @ [dict_pop (h ! a) ''geometri''] else h)"
  by (simp add: build_row_store_def store_pop_def store_copy_def Let_def)

lemma build_row_store_fst:
  "fst (build_row_store cfg i n g h a) = build_row cfg i n g (h ! a)"
  by (simp add: build_row_def build_row_store_def store_pop_def store_copy_def Let_def)

text \<open>
  Claim C10. Building a row does not change the record it is built from. With the
  properties-as-text option enabled the geometry field is removed from a new dict, put
  at a fresh address after a copy of the record's items; the dict at the record's own
  address, and every dict that existed before, is what it was, so the record still has
  all its attributes, the geometry field among them. The row built is the row the
  fetch loop appends.
\<close>

theorem build_row_leaves_record_unchanged:
  assumes "a < length h"
  shows "snd (build_row_store cfg objtype_id objtype_name g h a) ! a = h ! a \<and>
         take (length h) (snd (build_row_store cfg objtype_id objtype_name g h a)) = h \<and>
         snd (build_row_store cfg objtype_id objtype_name g h a) =
           (if INCLUDE_PROPERTIES_AS_JSON cfg
            then h @ [dict_pop (h ! a) ''geometri''] else h) \<and>
         fst (build_row_store cfg objtype_id objtype_name g h a) =
           build_row cfg objtype_id objtype_name g (h ! a)"
  using assms
  by (simp add: build_row_store_snd build_row_store_fst nth_append)

theorem build_row_leaves_record_unchanged_witness:
  "(0::nat) < length [demo_point_record] \<and>
   snd (build_row_store default_settings (PInt 10) ''Skred'' (Point 10 70)
          [demo_point_record] 0) ! 0 = demo_point_record \<and>
   snd (build_row_store default_settings (PInt 10) ''Skred'' (Point 10 70)
          [demo_point_record] 0) = [demo_point_record, [(''id'', PInt 1)]] \<and>
   dict_get demo_point_record ''geometri'' \<noteq> PNone"
proof -
  have l: "(0::nat) < length [demo_point_record]"
    by simp
  note t = build_row_leaves_record_unchanged
             [OF l, of default_settings "PInt 10" "''Skred''" "Point 10 70"]
  from t have a: "snd (build_row_store default_settings (PInt 10) ''Skred'' (Point 10 70)
          [demo_point_record] 0) ! 0 = demo_point_record"
    by simp
  have p: "dict_pop demo_point_record ''geometri'' = [(''id'', PInt 1)]"
    by code_simp
  have i: "INCLUDE_PROPERTIES_AS_JSON default_settings"
    by (simp add: default_settings_def)
  from t i p have b: "snd (build_row_store default_settings (PInt 10) ''Skred'' (Point 10 70)
          [demo_point_record] 0) = [demo_point_record, [(''id'', PInt 1)]]"
    by simp
  have c: "dict_get demo_point_record ''geometri'' \<noteq> PNone"
    by code_simp
  from l a b c show ?thesis
    by (intro conjI)
qed

end
